theory Spec2Isabelle
  imports Main
begin

section \<open>The Telegram dialog lister\<close>

text \<open>
  A shallow embedding of \<^verbatim>\<open>telegram_summarizer/utils/telegram_dialog_lister.py\<close>
  and \<^verbatim>\<open>telegram_summarizer/utils/dialog_info.py\<close>, with the scoped use of the
  lister in \<^verbatim>\<open>telegram_summarizer/test_loader.py\<close>.

  The Telethon client, the process environment, the prompt on standard input and
  Python's \<^verbatim>\<open>int\<close> are not code of the repository. Their answers are parameters
  of the model (the record \<open>remote\<close>, the map \<open>environ\<close>, the function \<open>py_int\<close>),
  and every call the lister makes on them is appended to a trace.
\<close>

subsection \<open>Exceptions\<close>

text \<open>
  The exceptions the code raises or names in an \<^verbatim>\<open>except\<close> clause.
  \<open>OtherException\<close> stands for any further subclass of \<^verbatim>\<open>Exception\<close>;
  \<open>CancelledError\<close> for an exception that derives from \<^verbatim>\<open>BaseException\<close> only
  (a cancelled task, a keyboard interrupt), which \<^verbatim>\<open>except Exception\<close> lets pass.
\<close>

datatype error =
    ValueError string
  | RuntimeError string
  | SessionPasswordNeededError
  | FloodWaitError int
  | OtherException string
  | CancelledError

subsection \<open>Remote entities and \<^verbatim>\<open>DialogInfo\<close>\<close>

text \<open>
  \<^verbatim>\<open>isinstance\<close> on the three Telethon classes is a match on the constructor;
  \<open>OtherEntity\<close> is an entity of any other class. \<^verbatim>\<open>getattr(entity,
  'participants_count', None)\<close> reads an optional integer; \<^verbatim>\<open>entity.broadcast\<close>
  is read for its truth value.
\<close>

datatype entity =
    User int
  | Chat int "int option"
  | Channel int bool "int option"
  | OtherEntity int

fun entity_id_of :: "entity \<Rightarrow> int" where
  "entity_id_of (User i) = i"
| "entity_id_of (Chat i pc) = i"
| "entity_id_of (Channel i b pc) = i"
| "entity_id_of (OtherEntity i) = i"

record dialog =
  dialog_name :: "string option"
  dialog_entity :: entity

record DialogInfo =
  name :: string
  entity_id :: int
  entity_type :: string
  participant_count :: "int option"

fun get_entity_type :: "entity \<Rightarrow> string \<times> int option" where
  "get_entity_type (User i) = (''Private Chat'', None)"
| "get_entity_type (Chat i pc) = (''Basic Group'', pc)"
| "get_entity_type (Channel i b pc) =
     (let participant_count = pc
      in if b then (''Channel (broadcast)'', participant_count)
         else (''Supergroup'', participant_count))"
| "get_entity_type (OtherEntity i) = (''Unknown'', None)"

text \<open>\<^verbatim>\<open>dialog.name or "Unnamed"\<close>: \<^verbatim>\<open>None\<close> and the empty string are both false.\<close>

definition name_or_unnamed :: "string option \<Rightarrow> string" where
  "name_or_unnamed n =
     (case n of None \<Rightarrow> ''Unnamed'' | Some s \<Rightarrow> if s = [] then ''Unnamed'' else s)"

definition make_dialog_info :: "dialog \<Rightarrow> DialogInfo" where
  "make_dialog_info d =
     (let entity = dialog_entity d;
          (etype, pcount) = get_entity_type entity
      in \<lparr>name = name_or_unnamed (dialog_name d),
          entity_id = entity_id_of entity,
          entity_type = etype,
          participant_count = pcount\<rparr>)"

subsection \<open>The environment and \<^verbatim>\<open>_get_env_var\<close>\<close>

text \<open>
  \<^verbatim>\<open>os.getenv\<close> reads the map \<open>environ\<close>. \<^verbatim>\<open>int(value)\<close> is the
  parameter \<open>py_int\<close>, \<open>None\<close> where the builtin raises \<^verbatim>\<open>ValueError\<close>;
  \<^verbatim>\<open>str\<close> of an integer is its decimal rendering \<open>py_str\<close>.
\<close>

fun str_nat :: "nat \<Rightarrow> string" where
  "str_nat n =
     (if n < 10 then [''0123456789'' ! n]
      else str_nat (n div 10) @ [''0123456789'' ! (n mod 10)])"

declare str_nat.simps [simp del]

definition py_str :: "int \<Rightarrow> string" where
  "py_str i = (if i < 0 then CHR ''-'' # str_nat (nat (- i)) else str_nat (nat i))"

definition get_env_var ::
  "(string \<Rightarrow> int option) \<Rightarrow> (string \<rightharpoonup> string) \<Rightarrow> string \<Rightarrow> bool \<Rightarrow> error + string" where
  "get_env_var py_int environ var_name is_int =
     (case environ var_name of
        None \<Rightarrow>
          Inl (ValueError (''Environment variable '' @ var_name @
                 '' is not set. Please set it before running this script.''))
      | Some v \<Rightarrow>
          if v = [] then
            Inl (ValueError (''Environment variable '' @ var_name @
                   '' is not set. Please set it before running this script.''))
          else if is_int then
            (case py_int v of
               None \<Rightarrow> Inl (ValueError (var_name @ '' must be a valid integer''))
             | Some i \<Rightarrow> Inr (py_str i))
          else Inr v)"

text \<open>
  An instance of \<open>py_int\<close> for concrete runs: \<^verbatim>\<open>int\<close> on ASCII text, that is
  blanks around an optional sign and decimal digits, single underscores allowed between
  digits.
\<close>

definition digit_val :: "char \<Rightarrow> nat option" where
  "digit_val c =
     map_of [(CHR ''0'', 0), (CHR ''1'', 1), (CHR ''2'', 2), (CHR ''3'', 3), (CHR ''4'', 4),
             (CHR ''5'', 5), (CHR ''6'', 6), (CHR ''7'', 7), (CHR ''8'', 8), (CHR ''9'', 9)] c"

definition is_blank :: "char \<Rightarrow> bool" where
  "is_blank c = (c \<in> set [CHR 0x09, CHR 0x0A, CHR 0x0B, CHR 0x0C, CHR 0x0D, CHR '' ''])"

fun digits_from :: "nat \<Rightarrow> string \<Rightarrow> nat option" where
  "digits_from acc [] = Some acc"
| "digits_from acc (c # cs) =
     (case digit_val c of
        Some d \<Rightarrow> digits_from (acc * 10 + d) cs
      | None \<Rightarrow>
          if c = CHR ''_'' then
            (case cs of
               [] \<Rightarrow> None
             | c' # cs' \<Rightarrow>
                 (case digit_val c' of
                    Some d \<Rightarrow> digits_from (acc * 10 + d) cs'
                  | None \<Rightarrow> None))
          else None)"

definition digits_value :: "string \<Rightarrow> nat option" where
  "digits_value s =
     (case s of
        [] \<Rightarrow> None
      | c # cs \<Rightarrow> (case digit_val c of Some d \<Rightarrow> digits_from d cs | None \<Rightarrow> None))"

definition ascii_int :: "string \<Rightarrow> int option" where
  "ascii_int s =
     (let t = rev (dropWhile is_blank (rev (dropWhile is_blank s)))
      in case t of
           [] \<Rightarrow> None
         | c # cs \<Rightarrow>
             if c = CHR ''-'' then map_option (\<lambda>n. - int n) (digits_value cs)
             else if c = CHR ''+'' then map_option int (digits_value cs)
             else map_option int (digits_value t))"

subsection \<open>The lister and the Telethon client\<close>

record tg_client =
  client_session :: string
  client_api_id :: string
  client_api_hash :: string
  connected :: bool

record lister =
  session_name :: string
  api_id :: string
  api_hash :: string
  client :: "tg_client option"

text \<open>\<^verbatim>\<open>TelegramDialogLister.__init__\<close>.\<close>

definition init ::
  "(string \<Rightarrow> int option) \<Rightarrow> (string \<rightharpoonup> string) \<Rightarrow> string \<Rightarrow> error + lister" where
  "init py_int environ sn =
     (case get_env_var py_int environ ''TELEGRAM_API_ID'' True of
        Inl e \<Rightarrow> Inl e
      | Inr aid \<Rightarrow>
          (case get_env_var py_int environ ''TELEGRAM_API_HASH'' False of
             Inl e \<Rightarrow> Inl e
           | Inr ah \<Rightarrow>
               Inr \<lparr>session_name = sn, api_id = aid, api_hash = ah, client = None\<rparr>))"

subsection \<open>The remote side and the trace of calls\<close>

text \<open>
  What the lister does to the outside, in order: the calls on the Telethon client, the
  prompt for the password, each pull from \<^verbatim>\<open>iter_dialogs()\<close>, and the messages
  it logs.
\<close>

datatype logmsg =
    InfoConnected
  | ErrorTwoFactor
  | ErrorRateLimited int
  | ErrorConnectFailed error
  | InfoFetching
  | InfoFound nat
  | ErrorRateLimitedFetching int
  | ErrorFetching error
  | InfoDisconnected

datatype action =
    Construct string string string
  | Start "string option"
  | Input
  | IterDialogs
  | Pull
  | ClientDisconnect
  | Log logmsg

record world =
  self :: lister
  trace :: "action list"

text \<open>
  The answers of the outside. \<^verbatim>\<open>client.start\<close> either returns, and the client is
  connected, or raises with the transport left open or closed as the flag says; the
  answer may depend on how many \<^verbatim>\<open>start\<close> calls came before and on the password.
  The constructor of the client does no network call: it returns, or raises some
  exception of its own with the given message. \<^verbatim>\<open>iter_dialogs()\<close> yields dialogs
  until the list ends or an item raises; what follows a raising item is what the remote
  would have sent next. \<^verbatim>\<open>client.disconnect()\<close> returns and closes the transport.
\<close>

datatype start_outcome = StartOk | StartRaises error bool

datatype event = Yield dialog | Fail error

record remote =
  ctor_reply :: "string option"
  start_reply :: "nat \<Rightarrow> string option \<Rightarrow> start_outcome"
  input_reply :: "error + string"
  dialogs_reply :: "event list"

definition emit :: "action \<Rightarrow> world \<Rightarrow> world" where
  "emit a w = w\<lparr>trace := trace w @ [a]\<rparr>"

definition set_client :: "tg_client option \<Rightarrow> world \<Rightarrow> world" where
  "set_client c w = w\<lparr>self := (self w)\<lparr>client := c\<rparr>\<rparr>"

definition is_Start :: "action \<Rightarrow> bool" where
  "is_Start a = (case a of Start p \<Rightarrow> True | _ \<Rightarrow> False)"

definition starts_made :: "world \<Rightarrow> nat" where
  "starts_made w = length (filter is_Start (trace w))"

text \<open>\<^verbatim>\<open>self.client and self.client.is_connected()\<close>.\<close>

definition is_connected :: "world \<Rightarrow> bool" where
  "is_connected w = (case client (self w) of None \<Rightarrow> False | Some c \<Rightarrow> connected c)"

text \<open>\<^verbatim>\<open>self.client = TelegramClient(self.session_name, self.api_id, self.api_hash)\<close>.\<close>

definition construct_client :: "remote \<Rightarrow> world \<Rightarrow> (error + unit) \<times> world" where
  "construct_client r w =
     (let l = self w;
          w1 = emit (Construct (session_name l) (api_id l) (api_hash l)) w
      in case ctor_reply r of
           Some msg \<Rightarrow> (Inl (OtherException msg), w1)
         | None \<Rightarrow>
             (Inr (), set_client (Some \<lparr>client_session = session_name l,
                 client_api_id = api_id l, client_api_hash = api_hash l,
                 connected = False\<rparr>) w1))"

text \<open>\<^verbatim>\<open>await self.client.start(password=p)\<close>.\<close>

definition start_client :: "remote \<Rightarrow> string option \<Rightarrow> world \<Rightarrow> (error + unit) \<times> world" where
  "start_client r p w =
     (case client (self w) of
        None \<Rightarrow> (Inl (OtherException ''AttributeError''), w)
      | Some c \<Rightarrow>
          (case start_reply r (starts_made w) p of
             StartOk \<Rightarrow>
               (Inr (), set_client (Some (c\<lparr>connected := True\<rparr>)) (emit (Start p) w))
           | StartRaises e b \<Rightarrow>
               (Inl e, set_client (Some (c\<lparr>connected := b\<rparr>)) (emit (Start p) w))))"

subsection \<open>\<^verbatim>\<open>connect\<close>\<close>

text \<open>The body of the \<^verbatim>\<open>try\<close>.\<close>

definition connect_try :: "remote \<Rightarrow> world \<Rightarrow> (error + unit) \<times> world" where
  "connect_try r w =
     (case construct_client r w of
        (Inl e, w1) \<Rightarrow> (Inl e, w1)
      | (Inr u, w1) \<Rightarrow>
          (case start_client r None w1 of
             (Inl e, w2) \<Rightarrow> (Inl e, w2)
           | (Inr u', w2) \<Rightarrow> (Inr (), emit (Log InfoConnected) w2)))"

text \<open>
  The \<^verbatim>\<open>except\<close> clauses, in the order of the source. An exception raised inside a
  handler leaves \<^verbatim>\<open>connect\<close> as it is.
\<close>

definition connect :: "remote \<Rightarrow> world \<Rightarrow> (error + unit) \<times> world" where
  "connect r w =
     (case connect_try r w of
        (Inr u, w1) \<Rightarrow> (Inr (), w1)
      | (Inl e, w1) \<Rightarrow>
          (case e of
             SessionPasswordNeededError \<Rightarrow>
               (let w2 = emit Input (emit (Log ErrorTwoFactor) w1)
                in case input_reply r of
                     Inl e' \<Rightarrow> (Inl e', w2)
                   | Inr password \<Rightarrow> start_client r (Some password) w2)
           | FloodWaitError seconds \<Rightarrow> (Inl e, emit (Log (ErrorRateLimited seconds)) w1)
           | CancelledError \<Rightarrow> (Inl e, w1)
           | _ \<Rightarrow> (Inl e, emit (Log (ErrorConnectFailed e)) w1)))"

subsection \<open>\<^verbatim>\<open>list_dialogs\<close>\<close>

text \<open>
  The \<^verbatim>\<open>async for\<close> loop: each round pulls once, and appends the record of a
  yielded dialog to \<^verbatim>\<open>dialogs\<close>.
\<close>

fun iter_loop :: "event list \<Rightarrow> DialogInfo list \<Rightarrow> world \<Rightarrow> (error + DialogInfo list) \<times> world" where
  "iter_loop [] dialogs w = (Inr dialogs, emit Pull w)"
| "iter_loop (Yield d # evs) dialogs w =
     iter_loop evs (dialogs @ [make_dialog_info d]) (emit Pull w)"
| "iter_loop (Fail e # evs) dialogs w = (Inl e, emit Pull w)"

definition list_dialogs :: "remote \<Rightarrow> world \<Rightarrow> (error + DialogInfo list) \<times> world" where
  "list_dialogs r w =
     (if \<not> is_connected w then
        (Inl (RuntimeError ''Client is not connected. Call connect() first.''), w)
      else
        (case iter_loop (dialogs_reply r) [] (emit IterDialogs (emit (Log InfoFetching) w)) of
           (Inr dialogs, w1) \<Rightarrow> (Inr dialogs, emit (Log (InfoFound (length dialogs))) w1)
         | (Inl e, w1) \<Rightarrow>
             (case e of
                FloodWaitError seconds \<Rightarrow>
                  (Inl e, emit (Log (ErrorRateLimitedFetching seconds)) w1)
              | CancelledError \<Rightarrow> (Inl e, w1)
              | _ \<Rightarrow> (Inl e, emit (Log (ErrorFetching e)) w1))))"

subsection \<open>\<^verbatim>\<open>disconnect\<close> and the scoped use\<close>

definition disconnect :: "world \<Rightarrow> (error + unit) \<times> world" where
  "disconnect w =
     (case client (self w) of
        None \<Rightarrow> (Inr (), w)
      | Some c \<Rightarrow>
          if connected c then
            (Inr (), emit (Log InfoDisconnected)
                       (set_client (Some (c\<lparr>connected := False\<rparr>)) (emit ClientDisconnect w)))
          else (Inr (), w))"

definition aenter :: "remote \<Rightarrow> world \<Rightarrow> (error + unit) \<times> world" where
  "aenter r w = connect r w"

definition aexit :: "world \<Rightarrow> (error + unit) \<times> world" where
  "aexit w = disconnect w"

text \<open>
  \<^verbatim>\<open>async with lister: body\<close>. When \<^verbatim>\<open>__aenter__\<close> raises, neither the body nor
  \<^verbatim>\<open>__aexit__\<close> runs. Otherwise \<^verbatim>\<open>__aexit__\<close> runs however the body ends; it
  returns \<^verbatim>\<open>None\<close>, so an exception of the body goes on to the caller.
\<close>

definition async_with ::
  "remote \<Rightarrow> (world \<Rightarrow> (error + 'a) \<times> world) \<Rightarrow> world \<Rightarrow> (error + 'a) \<times> world" where
  "async_with r body w =
     (case aenter r w of
        (Inl e, w1) \<Rightarrow> (Inl e, w1)
      | (Inr u, w1) \<Rightarrow>
          (case body w1 of
             (res, w2) \<Rightarrow>
               (case aexit w2 of
                  (Inl e, w3) \<Rightarrow> (Inl e, w3)
                | (Inr u', w3) \<Rightarrow> (res, w3))))"

text \<open>
  \<^verbatim>\<open>async with TelegramDialogLister() as lister: body\<close>, as in \<^verbatim>\<open>main\<close> of
  \<^verbatim>\<open>test_loader.py\<close>: the lister is built first, with the default session name, and
  the result comes with everything done to the outside.
\<close>

definition with_new_lister ::
  "(string \<Rightarrow> int option) \<Rightarrow> (string \<rightharpoonup> string) \<Rightarrow> remote \<Rightarrow>
     (world \<Rightarrow> (error + 'a) \<times> world) \<Rightarrow> (error + 'a) \<times> action list" where
  "with_new_lister py_int environ r body =
     (case init py_int environ ''telegram_session'' of
        Inl e \<Rightarrow> (Inl e, [])
      | Inr l \<Rightarrow>
          (case async_with r body \<lparr>self = l, trace = []\<rparr> of
             (res, w) \<Rightarrow> (res, trace w)))"

subsection \<open>Call sequences and observations\<close>

text \<open>A caller's sequence of calls on one lister; results are dropped, the state goes on.\<close>

datatype call = CallConnect remote | CallListDialogs remote | CallDisconnect

fun run_call :: "call \<Rightarrow> world \<Rightarrow> world" where
  "run_call (CallConnect r) w = snd (connect r w)"
| "run_call (CallListDialogs r) w = snd (list_dialogs r w)"
| "run_call CallDisconnect w = snd (disconnect w)"

fun run_calls :: "call list \<Rightarrow> world \<Rightarrow> world" where
  "run_calls [] w = w"
| "run_calls (c # cs) w = run_calls cs (run_call c w)"

text \<open>How many entities were pulled, and how often the client was disconnected.\<close>

definition pulls :: "world \<Rightarrow> nat" where
  "pulls w = length (filter (\<lambda>a. a = Pull) (trace w))"

definition disconnects :: "world \<Rightarrow> nat" where
  "disconnects w = length (filter (\<lambda>a. a = ClientDisconnect) (trace w))"

subsection \<open>Concrete inputs\<close>

definition alice :: dialog where
  "alice = \<lparr>dialog_name = Some ''Alice'', dialog_entity = User 42\<rparr>"

definition news :: dialog where
  "news = \<lparr>dialog_name = Some ''News'', dialog_entity = Channel 7 True (Some 500)\<rparr>"

definition team :: dialog where
  "team = \<lparr>dialog_name = Some ''Team'', dialog_entity = Chat 9 None\<rparr>"

definition nameless :: dialog where
  "nameless = \<lparr>dialog_name = Some [], dialog_entity = Channel 11 False None\<rparr>"

definition stranger :: dialog where
  "stranger = \<lparr>dialog_name = None, dialog_entity = OtherEntity 13\<rparr>"

definition some_lister :: lister where
  "some_lister =
     \<lparr>session_name = ''telegram_session'', api_id = ''12345'', api_hash = ''abc'',
      client = None\<rparr>"

definition some_client :: "bool \<Rightarrow> tg_client" where
  "some_client b =
     \<lparr>client_session = ''telegram_session'', client_api_id = ''12345'',
      client_api_hash = ''abc'', connected = b\<rparr>"

definition fresh_world :: world where
  "fresh_world = \<lparr>self = some_lister, trace = []\<rparr>"

definition connected_world :: world where
  "connected_world =
     \<lparr>self = some_lister\<lparr>client := Some (some_client True)\<rparr>, trace = []\<rparr>"

definition quiet_remote :: remote where
  "quiet_remote =
     \<lparr>ctor_reply = None, start_reply = (\<lambda>n p. StartOk), input_reply = Inr ''secret'',
      dialogs_reply = []\<rparr>"

text \<open>A remote that limits the rate of the first \<^verbatim>\<open>start\<close> only, leaving the transport open.\<close>

definition flooding_remote :: remote where
  "flooding_remote =
     quiet_remote\<lparr>start_reply :=
       (\<lambda>n p. if n = 0 then StartRaises (FloodWaitError 30) True else StartOk)\<rparr>"

text \<open>A remote that asks for the password, then limits the rate of the second \<^verbatim>\<open>start\<close>.\<close>

definition two_factor_flooding_remote :: remote where
  "two_factor_flooding_remote =
     quiet_remote\<lparr>start_reply :=
       (\<lambda>n p. if n = 0 then StartRaises SessionPasswordNeededError True
              else if n = 1 then StartRaises (FloodWaitError 30) True else StartOk)\<rparr>"

text \<open>A remote whose listing breaks after the first dialog.\<close>

definition failing_remote :: remote where
  "failing_remote =
     quiet_remote\<lparr>dialogs_reply := [Yield alice, Fail (OtherException ''boom'')]\<rparr>"

text \<open>Environments: one with an empty secret, one with a malformed identifier, one in order.\<close>

definition empty_secret_environ :: "string \<rightharpoonup> string" where
  "empty_secret_environ = [''TELEGRAM_API_ID'' \<mapsto> ''12345'', ''TELEGRAM_API_HASH'' \<mapsto> '''']"

definition bad_id_environ :: "string \<rightharpoonup> string" where
  "bad_id_environ = [''TELEGRAM_API_ID'' \<mapsto> ''12a45'', ''TELEGRAM_API_HASH'' \<mapsto> ''abc'']"

definition good_environ :: "string \<rightharpoonup> string" where
  "good_environ = [''TELEGRAM_API_ID'' \<mapsto> ''12345'', ''TELEGRAM_API_HASH'' \<mapsto> ''abc'']"

section \<open>Properties\<close>

subsection \<open>State and trace\<close>

lemma self_emit [simp]: "self (emit a w) = self w"
  by (simp add: emit_def)

lemma trace_emit [simp]: "trace (emit a w) = trace w @ [a]"
  by (simp add: emit_def)

lemma client_set_client [simp]: "client (self (set_client c w)) = c"
  by (simp add: set_client_def)

lemma trace_set_client [simp]: "trace (set_client c w) = trace w"
  by (simp add: set_client_def)

lemma is_connected_emit [simp]: "is_connected (emit a w) = is_connected w"
  by (simp add: is_connected_def)

subsection \<open>The loop of \<^verbatim>\<open>list_dialogs\<close>\<close>

lemma iter_loop_yields:
  "iter_loop (map Yield ds) acc w =
     (Inr (acc @ map make_dialog_info ds),
      w\<lparr>trace := trace w @ replicate (Suc (length ds)) Pull\<rparr>)"
proof (induction ds arbitrary: acc w)
  case Nil
  show ?case by (simp add: emit_def)
next
  case (Cons d ds)
  show ?case by (simp add: Cons.IH emit_def replicate_append_same)
qed

lemma iter_loop_fail:
  "iter_loop (map Yield pre @ Fail e # rest) acc w =
     (Inl e, w\<lparr>trace := trace w @ replicate (Suc (length pre)) Pull\<rparr>)"
proof (induction pre arbitrary: acc w)
  case Nil
  show ?case by (simp add: emit_def)
next
  case (Cons d ds)
  show ?case by (simp add: Cons.IH emit_def replicate_append_same)
qed

lemma make_dialog_info_fields:
  "name (make_dialog_info d) = name_or_unnamed (dialog_name d)"
  "entity_id (make_dialog_info d) = entity_id_of (dialog_entity d)"
  "entity_type (make_dialog_info d) = fst (get_entity_type (dialog_entity d))"
  "participant_count (make_dialog_info d) = snd (get_entity_type (dialog_entity d))"
  by (simp_all add: make_dialog_info_def Let_def split: prod.splits)

subsection \<open>Classification\<close>

text \<open>
  C1. \<^verbatim>\<open>_get_entity_type\<close> is a total function with no error result. A user gives
  "Private Chat" and no count; a basic group gives "Basic Group" and its count, if any; a
  channel gives "Channel (broadcast)" or "Supergroup" as its broadcast flag says, and its
  count, if any; every other entity gives "Unknown" and no count. The label is always one
  of these five, which differ from each other.
\<close>

theorem get_entity_type_rules:
  "get_entity_type (User i) = (''Private Chat'', None)
   \<and> get_entity_type (Chat i pc) = (''Basic Group'', pc)
   \<and> get_entity_type (Channel i True pc) = (''Channel (broadcast)'', pc)
   \<and> get_entity_type (Channel i False pc) = (''Supergroup'', pc)
   \<and> get_entity_type (OtherEntity i) = (''Unknown'', None)
   \<and> fst (get_entity_type e) \<in>
        {''Private Chat'', ''Basic Group'', ''Channel (broadcast)'', ''Supergroup'', ''Unknown''}
   \<and> distinct [''Private Chat'', ''Basic Group'', ''Channel (broadcast)'', ''Supergroup'',
        ''Unknown'']"
  by (cases e) simp_all

subsection \<open>Listing without errors\<close>

text \<open>
  C2. On a connected client, when the remote yields N dialogs and raises nothing,
  \<^verbatim>\<open>list_dialogs\<close> returns N records in the order of the remote. The name of each is
  the dialog's name, or "Unnamed" when that is \<^verbatim>\<open>None\<close> or empty; its identifier is
  the entity's; its type and participant count are those of \<^verbatim>\<open>_get_entity_type\<close>
  on the entity.
\<close>

theorem list_dialogs_all:
  assumes "is_connected w" and "dialogs_reply r = map Yield ds"
  shows "\<exists>rs. fst (list_dialogs r w) = Inr rs \<and> length rs = length ds \<and>
           (\<forall>i<length ds.
              name (rs ! i) =
                (case dialog_name (ds ! i) of
                   None \<Rightarrow> ''Unnamed''
                 | Some s \<Rightarrow> if s = [] then ''Unnamed'' else s) \<and>
              entity_id (rs ! i) = entity_id_of (dialog_entity (ds ! i)) \<and>
              entity_type (rs ! i) = fst (get_entity_type (dialog_entity (ds ! i))) \<and>
              participant_count (rs ! i) = snd (get_entity_type (dialog_entity (ds ! i))))"
proof -
  have "fst (list_dialogs r w) = Inr (map make_dialog_info ds)"
    using assms by (simp add: list_dialogs_def iter_loop_yields)
  moreover have "\<forall>i<length ds.
      name (map make_dialog_info ds ! i) =
        (case dialog_name (ds ! i) of
           None \<Rightarrow> ''Unnamed''
         | Some s \<Rightarrow> if s = [] then ''Unnamed'' else s) \<and>
      entity_id (map make_dialog_info ds ! i) = entity_id_of (dialog_entity (ds ! i)) \<and>
      entity_type (map make_dialog_info ds ! i) =
        fst (get_entity_type (dialog_entity (ds ! i))) \<and>
      participant_count (map make_dialog_info ds ! i) =
        snd (get_entity_type (dialog_entity (ds ! i)))"
    by (simp add: make_dialog_info_fields name_or_unnamed_def)
  ultimately show ?thesis by simp
qed

text \<open>The three scenarios of the specification, listed in one run.\<close>

theorem list_dialogs_all_witness:
  "is_connected connected_world
   \<and> dialogs_reply (quiet_remote\<lparr>dialogs_reply := map Yield [alice, news, team]\<rparr>) =
       map Yield [alice, news, team]
   \<and> fst (list_dialogs (quiet_remote\<lparr>dialogs_reply := map Yield [alice, news, team]\<rparr>)
          connected_world) =
       Inr [\<lparr>name = ''Alice'', entity_id = 42, entity_type = ''Private Chat'',
              participant_count = None\<rparr>,
            \<lparr>name = ''News'', entity_id = 7, entity_type = ''Channel (broadcast)'',
              participant_count = Some 500\<rparr>,
            \<lparr>name = ''Team'', entity_id = 9, entity_type = ''Basic Group'',
              participant_count = None\<rparr>]"
proof -
  have c: "is_connected connected_world"
    by (simp add: is_connected_def connected_world_def some_client_def)
  have d: "dialogs_reply (quiet_remote\<lparr>dialogs_reply := map Yield [alice, news, team]\<rparr>) =
       map Yield [alice, news, team]"
    by simp
  from list_dialogs_all [OF c d] obtain rs where
    rs: "fst (list_dialogs (quiet_remote\<lparr>dialogs_reply := map Yield [alice, news, team]\<rparr>)
          connected_world) = Inr rs"
    and len: "length rs = length [alice, news, team]"
    and fields: "\<forall>i<length [alice, news, team].
              name (rs ! i) =
                (case dialog_name ([alice, news, team] ! i) of
                   None \<Rightarrow> ''Unnamed''
                 | Some s \<Rightarrow> if s = [] then ''Unnamed'' else s) \<and>
              entity_id (rs ! i) = entity_id_of (dialog_entity ([alice, news, team] ! i)) \<and>
              entity_type (rs ! i) = fst (get_entity_type (dialog_entity ([alice, news, team] ! i))) \<and>
              participant_count (rs ! i) = snd (get_entity_type (dialog_entity ([alice, news, team] ! i)))"
    by blast
  from len obtain a b c' where abc: "rs = [a, b, c']"
    by (cases rs; simp) (metis Suc_length_conv length_0_conv)
  from fields have "a = \<lparr>name = ''Alice'', entity_id = 42, entity_type = ''Private Chat'',
              participant_count = None\<rparr>"
     and "b = \<lparr>name = ''News'', entity_id = 7, entity_type = ''Channel (broadcast)'',
              participant_count = Some 500\<rparr>"
     and "c' = \<lparr>name = ''Team'', entity_id = 9, entity_type = ''Basic Group'',
              participant_count = None\<rparr>"
    by (simp_all add: abc alice_def news_def team_def All_less_Suc)
  with rs abc c d show ?thesis by simp
qed

subsection \<open>Names of the records\<close>

lemma name_or_unnamed_nonempty: "name_or_unnamed n \<noteq> []"
  by (simp add: name_or_unnamed_def split: option.splits)

lemma iter_loop_names:
  "fst (iter_loop evs acc w) = Inr rs \<Longrightarrow> \<forall>d\<in>set acc. name d \<noteq> [] \<Longrightarrow>
     \<forall>d\<in>set rs. name d \<noteq> []"
proof (induction evs acc w rule: iter_loop.induct)
  case (1 dialogs w)
  then show ?case by simp
next
  case (2 d evs dialogs w)
  then show ?case by (simp add: make_dialog_info_fields name_or_unnamed_nonempty)
next
  case (3 e evs dialogs w)
  then show ?case by simp
qed

lemma list_dialogs_Inr:
  "fst (list_dialogs r w) = Inr rs \<Longrightarrow>
     fst (iter_loop (dialogs_reply r) [] (emit IterDialogs (emit (Log InfoFetching) w))) =
       Inr rs"
  by (auto simp: list_dialogs_def split: if_splits prod.splits sum.splits error.splits)

text \<open>
  C10. Every record that \<^verbatim>\<open>list_dialogs\<close> returns has a non-empty name, whatever
  the remote sent: \<^verbatim>\<open>dialog.name or "Unnamed"\<close> replaces a missing name and an
  empty one alike.
\<close>

theorem list_dialogs_names_nonempty:
  assumes "fst (list_dialogs r w) = Inr rs"
  shows "\<forall>d\<in>set rs. name d \<noteq> []"
proof -
  from assms
  have "fst (iter_loop (dialogs_reply r) [] (emit IterDialogs (emit (Log InfoFetching) w))) =
      Inr rs"
    by (rule list_dialogs_Inr)
  then show ?thesis
    by (rule iter_loop_names) simp
qed

text \<open>A dialog with an empty name and one with none are both listed as "Unnamed".\<close>

lemma connected_world_connected: "is_connected connected_world"
  by (simp add: is_connected_def connected_world_def some_client_def)

lemma list_nameless:
  "fst (list_dialogs (quiet_remote\<lparr>dialogs_reply := map Yield [nameless, stranger]\<rparr>)
          connected_world) =
     Inr [\<lparr>name = ''Unnamed'', entity_id = 11, entity_type = ''Supergroup'',
            participant_count = None\<rparr>,
          \<lparr>name = ''Unnamed'', entity_id = 13, entity_type = ''Unknown'',
            participant_count = None\<rparr>]"
  by (simp add: list_dialogs_def connected_world_connected iter_loop_yields
      make_dialog_info_def name_or_unnamed_def nameless_def stranger_def)

theorem list_dialogs_names_nonempty_witness:
  "fst (list_dialogs (quiet_remote\<lparr>dialogs_reply := map Yield [nameless, stranger]\<rparr>)
          connected_world) =
     Inr [\<lparr>name = ''Unnamed'', entity_id = 11, entity_type = ''Supergroup'',
            participant_count = None\<rparr>,
          \<lparr>name = ''Unnamed'', entity_id = 13, entity_type = ''Unknown'',
            participant_count = None\<rparr>]
   \<and> [] \<notin> name ` set [\<lparr>name = ''Unnamed'', entity_id = 11, entity_type = ''Supergroup'',
            participant_count = None\<rparr>,
          \<lparr>name = ''Unnamed'', entity_id = 13, entity_type = ''Unknown'',
            participant_count = None\<rparr>]"
  using list_dialogs_names_nonempty [OF list_nameless] list_nameless by auto

subsection \<open>Listing on a client that is not connected\<close>

text \<open>
  C7. When the lister has no client, or its client is not connected,
  \<^verbatim>\<open>list_dialogs\<close> raises the \<^verbatim>\<open>RuntimeError\<close> "Client is not connected. Call
  connect() first." and leaves lister and trace as they were: no client is built or
  started, and nothing is pulled from the remote.
\<close>

theorem list_dialogs_not_connected:
  "\<not> is_connected w \<Longrightarrow>
     list_dialogs r w =
       (Inl (RuntimeError ''Client is not connected. Call connect() first.''), w)"
  by (simp add: list_dialogs_def)

lemma fresh_world_not_connected: "\<not> is_connected fresh_world"
  by (simp add: is_connected_def fresh_world_def some_lister_def)

theorem list_dialogs_not_connected_witness:
  "\<not> is_connected fresh_world
   \<and> list_dialogs (quiet_remote\<lparr>dialogs_reply := map Yield [alice]\<rparr>) fresh_world =
       (Inl (RuntimeError ''Client is not connected. Call connect() first.''), fresh_world)"
  using list_dialogs_not_connected [OF fresh_world_not_connected]
    fresh_world_not_connected by blast

subsection \<open>Disconnecting\<close>

lemma disconnect_ok: "fst (disconnect w) = Inr ()"
  by (simp add: disconnect_def split: option.splits)

lemma disconnect_not_connected: "\<not> is_connected (snd (disconnect w))"
  by (simp add: disconnect_def is_connected_def split: option.splits)

lemma disconnect_when_closed: "\<not> is_connected w \<Longrightarrow> disconnect w = (Inr (), w)"
  by (simp add: disconnect_def is_connected_def split: option.splits)

lemma run_calls_append: "run_calls (xs @ ys) w = run_calls ys (run_calls xs w)"
  by (induction xs arbitrary: w) simp_all

text \<open>
  C9. \<^verbatim>\<open>disconnect\<close> returns without error in every state and leaves the client not
  connected; a second \<^verbatim>\<open>disconnect\<close> changes nothing, nor does a first one on a
  lister that is not connected; and after every sequence of calls that ends in
  \<^verbatim>\<open>disconnect\<close> the lister is not connected.
\<close>

theorem disconnect_idempotent:
  "fst (disconnect w) = Inr ()
   \<and> \<not> is_connected (snd (disconnect w))
   \<and> disconnect (snd (disconnect w)) = (Inr (), snd (disconnect w))
   \<and> (\<not> is_connected w \<longrightarrow> disconnect w = (Inr (), w))
   \<and> \<not> is_connected (run_calls (cs @ [CallDisconnect]) w)"
  by (simp add: disconnect_ok disconnect_not_connected disconnect_when_closed run_calls_append)

theorem disconnect_idempotent_witness:
  "\<not> is_connected fresh_world
   \<and> disconnect fresh_world = (Inr (), fresh_world)
   \<and> disconnect connected_world =
       (Inr (), \<lparr>self = some_lister\<lparr>client := Some (some_client False)\<rparr>,
                 trace = [ClientDisconnect, Log InfoDisconnected]\<rparr>)
   \<and> \<not> is_connected
         (run_calls [CallConnect quiet_remote, CallListDialogs quiet_remote, CallDisconnect]
            fresh_world)"
proof -
  have "disconnect connected_world =
       (Inr (), \<lparr>self = some_lister\<lparr>client := Some (some_client False)\<rparr>,
                 trace = [ClientDisconnect, Log InfoDisconnected]\<rparr>)"
    by (simp add: disconnect_def connected_world_def some_client_def some_lister_def
        emit_def set_client_def)
  then show ?thesis
    using disconnect_idempotent [of fresh_world "[CallConnect quiet_remote, CallListDialogs quiet_remote]"]
      fresh_world_not_connected by simp
qed

subsection \<open>Listing that the remote interrupts\<close>

lemma list_dialogs_fail:
  assumes "is_connected w" and "dialogs_reply r = map Yield pre @ Fail e # rest"
  shows "fst (list_dialogs r w) = Inl e"
    and "self (snd (list_dialogs r w)) = self w"
    and "pulls (snd (list_dialogs r w)) = pulls w + length pre + 1"
  using assms
  by (simp_all add: list_dialogs_def iter_loop_fail emit_def pulls_def split: error.splits)

text \<open>
  C4, as the code has it. When the remote raises \<^verbatim>\<open>FloodWaitError\<close> at position k of
  the listing, \<^verbatim>\<open>list_dialogs\<close> logs the wait time and raises the same error again:
  it has pulled k + 1 times, it pulls no more, it does not wait or resume, and it returns
  no record.
\<close>

theorem list_dialogs_rate_limited:
  assumes "is_connected w"
    and "dialogs_reply r = map Yield pre @ Fail (FloodWaitError seconds) # rest"
  shows "list_dialogs r w =
           (Inl (FloodWaitError seconds),
            w\<lparr>trace := trace w @ [Log InfoFetching, IterDialogs] @
               replicate (Suc (length pre)) Pull @ [Log (ErrorRateLimitedFetching seconds)]\<rparr>)"
  using assms by (simp add: list_dialogs_def iter_loop_fail emit_def)

text \<open>
  One rate limit after the first of two dialogs: the listing ends with the error, the
  second dialog is never pulled, and the two records are not returned.
\<close>

theorem list_dialogs_rate_limited_counterexample:
  "list_dialogs (quiet_remote\<lparr>dialogs_reply := [Yield alice, Fail (FloodWaitError 30), Yield news]\<rparr>)
       connected_world =
     (Inl (FloodWaitError 30),
      connected_world\<lparr>trace := [Log InfoFetching, IterDialogs, Pull, Pull,
         Log (ErrorRateLimitedFetching 30)]\<rparr>)
   \<and> fst (list_dialogs
            (quiet_remote\<lparr>dialogs_reply := [Yield alice, Fail (FloodWaitError 30), Yield news]\<rparr>)
            connected_world) \<noteq>
       Inr [make_dialog_info alice, make_dialog_info news]"
  by (simp add: list_dialogs_def connected_world_def is_connected_def some_client_def emit_def)

theorem list_dialogs_rate_limited_witness:
  "is_connected connected_world
   \<and> list_dialogs (quiet_remote\<lparr>dialogs_reply := [Yield alice, Fail (FloodWaitError 30), Yield news]\<rparr>)
       connected_world =
     (Inl (FloodWaitError 30),
      connected_world\<lparr>trace := [Log InfoFetching, IterDialogs, Pull, Pull,
         Log (ErrorRateLimitedFetching 30)]\<rparr>)"
proof -
  have c: "is_connected connected_world"
    by (simp add: is_connected_def connected_world_def some_client_def)
  have d: "dialogs_reply
      (quiet_remote\<lparr>dialogs_reply := [Yield alice, Fail (FloodWaitError 30), Yield news]\<rparr>) =
      map Yield [alice] @ Fail (FloodWaitError 30) # [Yield news]"
    by simp
  have t: "trace connected_world = []"
    by (simp add: connected_world_def)
  show ?thesis
    using list_dialogs_rate_limited [OF c d] c t by simp
qed

text \<open>
  C5, as the code has it. When the remote raises an error other than
  \<^verbatim>\<open>FloodWaitError\<close> at position k of the listing, \<^verbatim>\<open>list_dialogs\<close> raises that
  same error, not wrapped, after k + 1 pulls and no more. It logs the error first when it
  is an \<^verbatim>\<open>Exception\<close>; a cancellation passes without a log. The result holds no
  record, and the lister is as it was before the call: the records built so far are gone
  with the local list.
\<close>

theorem list_dialogs_error_aborts:
  assumes "is_connected w" and "dialogs_reply r = map Yield pre @ Fail e # rest"
    and "\<forall>seconds. e \<noteq> FloodWaitError seconds"
  shows "list_dialogs r w =
           (Inl e,
            w\<lparr>trace := trace w @ [Log InfoFetching, IterDialogs] @
               replicate (Suc (length pre)) Pull @
               (if e = CancelledError then [] else [Log (ErrorFetching e)])\<rparr>)
         \<and> fst (list_dialogs r w) = Inl e
         \<and> self (snd (list_dialogs r w)) = self w
         \<and> pulls (snd (list_dialogs r w)) = pulls w + length pre + 1"
proof -
  have "list_dialogs r w =
           (Inl e,
            w\<lparr>trace := trace w @ [Log InfoFetching, IterDialogs] @
               replicate (Suc (length pre)) Pull @
               (if e = CancelledError then [] else [Log (ErrorFetching e)])\<rparr>)"
    using assms
    by (cases e) (simp_all add: list_dialogs_def iter_loop_fail emit_def)
  with list_dialogs_fail [OF assms(1,2)] show ?thesis by simp
qed

text \<open>
  The listing breaks after the first dialog: the caller gets the bare error, and nothing
  but the trace has changed.
\<close>

theorem list_dialogs_error_aborts_counterexample:
  "list_dialogs (quiet_remote\<lparr>dialogs_reply := [Yield alice, Fail (OtherException ''boom'')]\<rparr>)
       connected_world =
     (Inl (OtherException ''boom''),
      connected_world\<lparr>trace := [Log InfoFetching, IterDialogs, Pull, Pull,
         Log (ErrorFetching (OtherException ''boom''))]\<rparr>)"
  by (simp add: list_dialogs_def connected_world_def is_connected_def some_client_def emit_def)

text \<open>An error after one dialog is logged; a cancellation after two is not.\<close>

theorem list_dialogs_error_aborts_witness:
  "is_connected connected_world
   \<and> list_dialogs
       (quiet_remote\<lparr>dialogs_reply := [Yield alice, Fail (OtherException ''boom'')]\<rparr>)
       connected_world =
     (Inl (OtherException ''boom''),
      connected_world\<lparr>trace := [Log InfoFetching, IterDialogs, Pull, Pull,
         Log (ErrorFetching (OtherException ''boom''))]\<rparr>)
   \<and> self (snd (list_dialogs
       (quiet_remote\<lparr>dialogs_reply := [Yield alice, Fail (OtherException ''boom'')]\<rparr>)
       connected_world)) = self connected_world
   \<and> pulls (snd (list_dialogs
       (quiet_remote\<lparr>dialogs_reply := [Yield alice, Fail (OtherException ''boom'')]\<rparr>)
       connected_world)) = 2
   \<and> list_dialogs
       (quiet_remote\<lparr>dialogs_reply := [Yield alice, Yield news, Fail CancelledError]\<rparr>)
       connected_world =
     (Inl CancelledError,
      connected_world\<lparr>trace := [Log InfoFetching, IterDialogs, Pull, Pull, Pull]\<rparr>)"
proof -
  have c: "is_connected connected_world"
    by (simp add: is_connected_def connected_world_def some_client_def)
  have d: "dialogs_reply
      (quiet_remote\<lparr>dialogs_reply := [Yield alice, Fail (OtherException ''boom'')]\<rparr>) =
      map Yield [alice] @ Fail (OtherException ''boom'') # []"
    by simp
  have e: "\<forall>seconds. OtherException ''boom'' \<noteq> FloodWaitError seconds"
    by simp
  have d': "dialogs_reply
      (quiet_remote\<lparr>dialogs_reply := [Yield alice, Yield news, Fail CancelledError]\<rparr>) =
      map Yield [alice, news] @ Fail CancelledError # []"
    by simp
  have e': "\<forall>seconds. CancelledError \<noteq> FloodWaitError seconds"
    by simp
  have p: "pulls connected_world = 0"
    by (simp add: pulls_def connected_world_def)
  have t: "trace connected_world = []"
    by (simp add: connected_world_def)
  note a = list_dialogs_error_aborts [OF c d e]
  note b = list_dialogs_error_aborts [OF c d' e']
  from a t have 1: "list_dialogs
       (quiet_remote\<lparr>dialogs_reply := [Yield alice, Fail (OtherException ''boom'')]\<rparr>)
       connected_world =
     (Inl (OtherException ''boom''),
      connected_world\<lparr>trace := [Log InfoFetching, IterDialogs, Pull, Pull,
         Log (ErrorFetching (OtherException ''boom''))]\<rparr>)"
    by simp
  from a have 2: "self (snd (list_dialogs
       (quiet_remote\<lparr>dialogs_reply := [Yield alice, Fail (OtherException ''boom'')]\<rparr>)
       connected_world)) = self connected_world"
    by blast
  from a have "pulls (snd (list_dialogs
       (quiet_remote\<lparr>dialogs_reply := [Yield alice, Fail (OtherException ''boom'')]\<rparr>)
       connected_world)) = pulls connected_world + length [alice] + 1"
    by blast
  then have 3: "pulls (snd (list_dialogs
       (quiet_remote\<lparr>dialogs_reply := [Yield alice, Fail (OtherException ''boom'')]\<rparr>)
       connected_world)) = 2"
    by (simp only: p) simp
  from b t have 4: "list_dialogs
       (quiet_remote\<lparr>dialogs_reply := [Yield alice, Yield news, Fail CancelledError]\<rparr>)
       connected_world =
     (Inl CancelledError,
      connected_world\<lparr>trace := [Log InfoFetching, IterDialogs, Pull, Pull, Pull]\<rparr>)"
    by simp
  from c 1 2 3 4 show ?thesis by blast
qed

subsection \<open>Connecting under a rate limit\<close>

lemma starts_made_emit:
  "starts_made (emit a w) = (if is_Start a then Suc (starts_made w) else starts_made w)"
  by (simp add: starts_made_def)

lemma starts_made_set_client [simp]: "starts_made (set_client c w) = starts_made w"
  by (simp add: starts_made_def)

lemma construct_client_ok:
  "ctor_reply r = None \<Longrightarrow>
     construct_client r w =
       (Inr (), set_client (Some \<lparr>client_session = session_name (self w),
          client_api_id = api_id (self w), client_api_hash = api_hash (self w),
          connected = False\<rparr>)
          (emit (Construct (session_name (self w)) (api_id (self w)) (api_hash (self w))) w))"
  by (simp add: construct_client_def Let_def)

lemma start_client_raises:
  "client (self w) = Some c \<Longrightarrow> start_reply r (starts_made w) p = StartRaises e b \<Longrightarrow>
     start_client r p w = (Inl e, set_client (Some (c\<lparr>connected := b\<rparr>)) (emit (Start p) w))"
  by (simp add: start_client_def)

lemma connect_try_raises:
  assumes "ctor_reply r = None" and "start_reply r (starts_made w) None = StartRaises e b"
  shows "connect_try r w =
     (Inl e, set_client (Some \<lparr>client_session = session_name (self w),
          client_api_id = api_id (self w), client_api_hash = api_hash (self w),
          connected = b\<rparr>)
        (emit (Start None)
          (emit (Construct (session_name (self w)) (api_id (self w)) (api_hash (self w))) w)))"
proof -
  let ?c = "\<lparr>client_session = session_name (self w),
          client_api_id = api_id (self w), client_api_hash = api_hash (self w),
          connected = False\<rparr>"
  let ?w1 = "set_client (Some ?c)
          (emit (Construct (session_name (self w)) (api_id (self w)) (api_hash (self w))) w)"
  have c: "construct_client r w = (Inr (), ?w1)"
    using assms(1) by (rule construct_client_ok)
  have "start_reply r (starts_made ?w1) None = StartRaises e b"
    using assms(2) by (simp add: starts_made_emit is_Start_def)
  then have "start_client r None ?w1 =
      (Inl e, set_client (Some (?c\<lparr>connected := b\<rparr>)) (emit (Start None) ?w1))"
    by (intro start_client_raises) simp_all
  with c show ?thesis
    by (simp add: connect_try_def set_client_def emit_def)
qed

lemma connect_flood_first:
  assumes "ctor_reply r = None"
    and "start_reply r (starts_made w) None = StartRaises (FloodWaitError seconds) b"
  shows "fst (connect r w) = Inl (FloodWaitError seconds)"
    and "starts_made (snd (connect r w)) = starts_made w + 1"
    and "Log (ErrorRateLimited seconds) \<in> set (trace (snd (connect r w)))"
  by (simp_all add: connect_def connect_try_raises [OF assms] starts_made_emit is_Start_def)

lemma connect_flood_second:
  assumes "ctor_reply r = None"
    and "start_reply r (starts_made w) None = StartRaises SessionPasswordNeededError b'"
    and "input_reply r = Inr password"
    and "start_reply r (starts_made w + 1) (Some password) =
           StartRaises (FloodWaitError seconds) b"
  shows "fst (connect r w) = Inl (FloodWaitError seconds)"
    and "starts_made (snd (connect r w)) = starts_made w + 2"
  using assms(3,4)
  by (simp_all add: connect_def connect_try_raises [OF assms(1,2)] starts_made_emit is_Start_def
      start_client_def Let_def)

text \<open>
  C3, as the code has it. \<^verbatim>\<open>connect\<close> never retries. When the first
  \<^verbatim>\<open>start\<close> raises \<^verbatim>\<open>FloodWaitError\<close>, \<^verbatim>\<open>connect\<close> logs the wait time and
  raises the same error again, with its seconds, after that one \<^verbatim>\<open>start\<close>. When the
  first \<^verbatim>\<open>start\<close> asks for the password and the second one raises
  \<^verbatim>\<open>FloodWaitError\<close>, that error leaves \<^verbatim>\<open>connect\<close> after those two calls.
\<close>

theorem connect_rate_limited:
  "(ctor_reply r = None \<and>
    start_reply r (starts_made w) None = StartRaises (FloodWaitError seconds) b \<longrightarrow>
      fst (connect r w) = Inl (FloodWaitError seconds) \<and>
      starts_made (snd (connect r w)) = starts_made w + 1 \<and>
      Log (ErrorRateLimited seconds) \<in> set (trace (snd (connect r w))))
   \<and> (ctor_reply r = None \<and>
      start_reply r (starts_made w) None = StartRaises SessionPasswordNeededError b' \<and>
      input_reply r = Inr password \<and>
      start_reply r (starts_made w + 1) (Some password) =
        StartRaises (FloodWaitError seconds) b \<longrightarrow>
      fst (connect r w) = Inl (FloodWaitError seconds) \<and>
      starts_made (snd (connect r w)) = starts_made w + 2)"
proof (intro conjI impI)
  assume "ctor_reply r = None \<and>
    start_reply r (starts_made w) None = StartRaises (FloodWaitError seconds) b"
  then have c: "ctor_reply r = None"
    and s: "start_reply r (starts_made w) None = StartRaises (FloodWaitError seconds) b"
    by simp_all
  show "fst (connect r w) = Inl (FloodWaitError seconds)"
    using c s by (rule connect_flood_first)
  show "starts_made (snd (connect r w)) = starts_made w + 1"
    using c s by (rule connect_flood_first)
  show "Log (ErrorRateLimited seconds) \<in> set (trace (snd (connect r w)))"
    using c s by (rule connect_flood_first)
next
  assume "ctor_reply r = None \<and>
      start_reply r (starts_made w) None = StartRaises SessionPasswordNeededError b' \<and>
      input_reply r = Inr password \<and>
      start_reply r (starts_made w + 1) (Some password) =
        StartRaises (FloodWaitError seconds) b"
  then have c: "ctor_reply r = None"
    and s: "start_reply r (starts_made w) None = StartRaises SessionPasswordNeededError b'"
    and i: "input_reply r = Inr password"
    and t: "start_reply r (starts_made w + 1) (Some password) =
        StartRaises (FloodWaitError seconds) b"
    by simp_all
  show "fst (connect r w) = Inl (FloodWaitError seconds)"
    using c s i t by (rule connect_flood_second)
  show "starts_made (snd (connect r w)) = starts_made w + 2"
    using c s i t by (rule connect_flood_second)
qed

text \<open>
  One rate limit on the first \<^verbatim>\<open>start\<close>, where a second \<^verbatim>\<open>start\<close> would have
  passed: \<^verbatim>\<open>connect\<close> fails at once, and the client is still connected.
\<close>

theorem connect_rate_limited_counterexample:
  "connect flooding_remote fresh_world =
     (Inl (FloodWaitError 30),
      \<lparr>self = some_lister\<lparr>client := Some (some_client True)\<rparr>,
       trace = [Construct ''telegram_session'' ''12345'' ''abc'', Start None,
                Log (ErrorRateLimited 30)]\<rparr>)
   \<and> start_reply flooding_remote 1 None = StartOk
   \<and> is_connected (snd (connect flooding_remote fresh_world))"
  by (simp add: connect_def connect_try_def construct_client_def start_client_def
      flooding_remote_def quiet_remote_def fresh_world_def some_lister_def some_client_def
      emit_def set_client_def starts_made_def is_Start_def is_connected_def)


lemma fresh_world_starts: "starts_made fresh_world = 0"
  by (simp add: starts_made_def fresh_world_def)

theorem connect_rate_limited_witness:
  "ctor_reply flooding_remote = None
   \<and> start_reply flooding_remote (starts_made fresh_world) None =
       StartRaises (FloodWaitError 30) True
   \<and> fst (connect flooding_remote fresh_world) = Inl (FloodWaitError 30)
   \<and> starts_made (snd (connect flooding_remote fresh_world)) = 1
   \<and> Log (ErrorRateLimited 30) \<in> set (trace (snd (connect flooding_remote fresh_world)))
   \<and> ctor_reply two_factor_flooding_remote = None
   \<and> start_reply two_factor_flooding_remote (starts_made fresh_world) None =
       StartRaises SessionPasswordNeededError True
   \<and> input_reply two_factor_flooding_remote = Inr ''secret''
   \<and> start_reply two_factor_flooding_remote (starts_made fresh_world + 1) (Some ''secret'') =
       StartRaises (FloodWaitError 30) True
   \<and> fst (connect two_factor_flooding_remote fresh_world) = Inl (FloodWaitError 30)
   \<and> starts_made (snd (connect two_factor_flooding_remote fresh_world)) = 2"
proof -
  have a: "ctor_reply flooding_remote = None \<and>
      start_reply flooding_remote (starts_made fresh_world) None =
        StartRaises (FloodWaitError 30) True"
    by (simp add: flooding_remote_def quiet_remote_def fresh_world_starts)
  have b: "ctor_reply two_factor_flooding_remote = None \<and>
      start_reply two_factor_flooding_remote (starts_made fresh_world) None =
        StartRaises SessionPasswordNeededError True \<and>
      input_reply two_factor_flooding_remote = Inr ''secret'' \<and>
      start_reply two_factor_flooding_remote (starts_made fresh_world + 1) (Some ''secret'') =
        StartRaises (FloodWaitError 30) True"
    by (simp add: two_factor_flooding_remote_def quiet_remote_def fresh_world_starts)
  from a connect_rate_limited [of flooding_remote fresh_world 30 True]
  have "fst (connect flooding_remote fresh_world) = Inl (FloodWaitError 30) \<and>
      starts_made (snd (connect flooding_remote fresh_world)) = starts_made fresh_world + 1 \<and>
      Log (ErrorRateLimited 30) \<in> set (trace (snd (connect flooding_remote fresh_world)))"
    by blast
  moreover from b
    connect_rate_limited [of two_factor_flooding_remote fresh_world 30 True True "''secret''"]
  have "fst (connect two_factor_flooding_remote fresh_world) = Inl (FloodWaitError 30) \<and>
      starts_made (snd (connect two_factor_flooding_remote fresh_world)) =
        starts_made fresh_world + 2"
    by blast
  ultimately show ?thesis
    using a b by (simp add: fresh_world_starts)
qed

subsection \<open>The scoped use\<close>

lemma disconnects_disconnect:
  "disconnects (snd (disconnect w)) = disconnects w + (if is_connected w then 1 else 0)"
  by (simp add: disconnect_def disconnects_def is_connected_def split: option.splits)

lemma async_with_entered:
  assumes "fst (connect r w) = Inr ()"
  shows "async_with r body w =
           (fst (body (snd (connect r w))), snd (disconnect (snd (body (snd (connect r w))))))"
proof -
  obtain w1 where c: "connect r w = (Inr (), w1)"
    using assms by (cases "connect r w") simp
  obtain res w2 where b: "body w1 = (res, w2)"
    by (cases "body w1")
  obtain w3 where d: "disconnect w2 = (Inr (), w3)"
    using disconnect_ok [of w2] by (cases "disconnect w2") simp
  show ?thesis
    by (simp add: async_with_def aenter_def aexit_def c b d)
qed

text \<open>
  The exit paths that release. Once \<^verbatim>\<open>connect\<close> has returned in
  \<^verbatim>\<open>__aenter__\<close>, \<^verbatim>\<open>disconnect\<close> runs on the state the body leaves, however the
  body ends (a result, an exception, a cancellation): the body's outcome goes to the
  caller, the client is disconnected once if the body left it connected, and it ends not
  connected.
\<close>

theorem async_with_releases:
  assumes "fst (connect r w) = Inr ()"
  shows "fst (async_with r body w) = fst (body (snd (connect r w)))
         \<and> snd (async_with r body w) = snd (disconnect (snd (body (snd (connect r w)))))
         \<and> disconnects (snd (async_with r body w)) =
             disconnects (snd (body (snd (connect r w)))) +
               (if is_connected (snd (body (snd (connect r w)))) then 1 else 0)
         \<and> \<not> is_connected (snd (async_with r body w))"
  by (simp add: async_with_entered [OF assms] disconnect_not_connected disconnects_disconnect)

text \<open>
  C6. Every exit path of the scoped use should end in \<^verbatim>\<open>disconnect\<close>, also when
  \<^verbatim>\<open>connect\<close> itself fails. The code misses that path: when the first
  \<^verbatim>\<open>start\<close> raises with the transport open, \<^verbatim>\<open>connect\<close> raises again without
  closing it and \<^verbatim>\<open>__aexit__\<close> does not run, so the block ends with the error, no
  call of \<^verbatim>\<open>client.disconnect()\<close> and a client that is still connected.
\<close>

theorem async_with_connect_failure_leaks:
  "async_with flooding_remote (list_dialogs flooding_remote) fresh_world =
     (Inl (FloodWaitError 30),
      \<lparr>self = some_lister\<lparr>client := Some (some_client True)\<rparr>,
       trace = [Construct ''telegram_session'' ''12345'' ''abc'', Start None,
                Log (ErrorRateLimited 30)]\<rparr>)
   \<and> is_connected (snd (async_with flooding_remote (list_dialogs flooding_remote) fresh_world))
   \<and> disconnects (snd (async_with flooding_remote (list_dialogs flooding_remote) fresh_world)) = 0"
  by (simp add: async_with_def aenter_def connect_def connect_try_def construct_client_def
      start_client_def flooding_remote_def quiet_remote_def fresh_world_def some_lister_def
      some_client_def emit_def set_client_def starts_made_def is_Start_def is_connected_def
      disconnects_def)

lemma connect_quiet:
  "connect quiet_remote fresh_world =
     (Inr (), \<lparr>self = some_lister\<lparr>client := Some (some_client True)\<rparr>,
       trace = [Construct ''telegram_session'' ''12345'' ''abc'', Start None,
                Log InfoConnected]\<rparr>)"
  by (simp add: connect_def connect_try_def construct_client_def start_client_def
      quiet_remote_def fresh_world_def some_lister_def some_client_def emit_def set_client_def)

theorem async_with_releases_witness:
  "fst (connect quiet_remote fresh_world) = Inr ()
   \<and> async_with quiet_remote (list_dialogs failing_remote) fresh_world =
       (Inl (OtherException ''boom''),
        \<lparr>self = some_lister\<lparr>client := Some (some_client False)\<rparr>,
         trace = [Construct ''telegram_session'' ''12345'' ''abc'', Start None,
                  Log InfoConnected, Log InfoFetching, IterDialogs, Pull, Pull,
                  Log (ErrorFetching (OtherException ''boom'')), ClientDisconnect,
                  Log InfoDisconnected]\<rparr>)
   \<and> \<not> is_connected (snd (async_with quiet_remote (list_dialogs failing_remote) fresh_world))"
proof -
  have c: "fst (connect quiet_remote fresh_world) = Inr ()"
    by (simp add: connect_quiet)
  have b: "list_dialogs failing_remote (snd (connect quiet_remote fresh_world)) =
      (Inl (OtherException ''boom''),
        \<lparr>self = some_lister\<lparr>client := Some (some_client True)\<rparr>,
         trace = [Construct ''telegram_session'' ''12345'' ''abc'', Start None,
                  Log InfoConnected, Log InfoFetching, IterDialogs, Pull, Pull,
                  Log (ErrorFetching (OtherException ''boom''))]\<rparr>)"
    by (simp add: connect_quiet list_dialogs_def failing_remote_def is_connected_def
        some_client_def emit_def)
  have d: "snd (disconnect \<lparr>self = some_lister\<lparr>client := Some (some_client True)\<rparr>,
         trace = [Construct ''telegram_session'' ''12345'' ''abc'', Start None,
                  Log InfoConnected, Log InfoFetching, IterDialogs, Pull, Pull,
                  Log (ErrorFetching (OtherException ''boom''))]\<rparr>) =
       \<lparr>self = some_lister\<lparr>client := Some (some_client False)\<rparr>,
         trace = [Construct ''telegram_session'' ''12345'' ''abc'', Start None,
                  Log InfoConnected, Log InfoFetching, IterDialogs, Pull, Pull,
                  Log (ErrorFetching (OtherException ''boom'')), ClientDisconnect,
                  Log InfoDisconnected]\<rparr>"
    by (simp add: disconnect_def some_client_def emit_def set_client_def)
  note r = async_with_releases [OF c, of "list_dialogs failing_remote"]
  from r b
  have f: "fst (async_with quiet_remote (list_dialogs failing_remote) fresh_world) =
      Inl (OtherException ''boom'')"
    by simp
  from r b d
  have s: "snd (async_with quiet_remote (list_dialogs failing_remote) fresh_world) =
      \<lparr>self = some_lister\<lparr>client := Some (some_client False)\<rparr>,
         trace = [Construct ''telegram_session'' ''12345'' ''abc'', Start None,
                  Log InfoConnected, Log InfoFetching, IterDialogs, Pull, Pull,
                  Log (ErrorFetching (OtherException ''boom'')), ClientDisconnect,
                  Log InfoDisconnected]\<rparr>"
    by simp
  from r
  have n: "\<not> is_connected
      (snd (async_with quiet_remote (list_dialogs failing_remote) fresh_world))"
    by blast
  from f s n c show ?thesis
    unfolding prod_eq_iff fst_conv snd_conv by blast
qed


subsection \<open>Credentials\<close>

lemma get_env_var_Inl: "get_env_var py_int environ v b = Inl x \<Longrightarrow> \<exists>msg. x = ValueError msg"
  by (auto simp: get_env_var_def split: option.splits if_splits)

lemma get_env_var_Inr:
  "get_env_var py_int environ v b = Inr y \<Longrightarrow>
     \<exists>x. environ v = Some x \<and> x \<noteq> [] \<and> (b \<longrightarrow> py_int x \<noteq> None)"
  by (auto simp: get_env_var_def split: option.splits if_splits)

lemma init_Inl: "init py_int environ sn = Inl x \<Longrightarrow> \<exists>msg. x = ValueError msg"
  by (auto simp: init_def split: sum.splits dest: get_env_var_Inl)

lemma init_Inr:
  assumes "init py_int environ sn = Inr l"
  shows "(\<exists>x. environ ''TELEGRAM_API_ID'' = Some x \<and> x \<noteq> [] \<and> py_int x \<noteq> None)
         \<and> (\<exists>y. environ ''TELEGRAM_API_HASH'' = Some y \<and> y \<noteq> [])"
proof -
  from assms obtain aid ah where
    a: "get_env_var py_int environ ''TELEGRAM_API_ID'' True = Inr aid" and
    h: "get_env_var py_int environ ''TELEGRAM_API_HASH'' False = Inr ah"
    by (auto simp: init_def split: sum.splits)
  from get_env_var_Inr [OF a] get_env_var_Inr [OF h] show ?thesis
    by blast
qed

text \<open>
  C8. When \<^verbatim>\<open>TELEGRAM_API_ID\<close> or \<^verbatim>\<open>TELEGRAM_API_HASH\<close> is unset or empty, or
  \<^verbatim>\<open>int\<close> rejects \<^verbatim>\<open>TELEGRAM_API_ID\<close>, building the lister raises
  \<^verbatim>\<open>ValueError\<close>; in \<^verbatim>\<open>async with TelegramDialogLister()\<close> nothing has been done
  to the outside by then: no client is built, started or asked for dialogs.
\<close>

theorem init_configuration_error:
  assumes "environ ''TELEGRAM_API_ID'' = None \<or> environ ''TELEGRAM_API_ID'' = Some []
           \<or> (\<exists>v. environ ''TELEGRAM_API_ID'' = Some v \<and> py_int v = None)
           \<or> environ ''TELEGRAM_API_HASH'' = None \<or> environ ''TELEGRAM_API_HASH'' = Some []"
  shows "(\<exists>msg. init py_int environ sn = Inl (ValueError msg))
         \<and> (\<exists>msg. with_new_lister py_int environ r body = (Inl (ValueError msg), []))"
proof -
  have i: "\<exists>msg. init py_int environ sn' = Inl (ValueError msg)" for sn'
  proof (cases "init py_int environ sn'")
    case (Inl x)
    then show ?thesis using init_Inl by blast
  next
    case (Inr l)
    from init_Inr [OF Inr] assms show ?thesis by auto
  qed
  from i [of "''telegram_session''"]
  have "\<exists>msg. with_new_lister py_int environ r body = (Inl (ValueError msg), [])"
    by (auto simp: with_new_lister_def)
  with i show ?thesis by blast
qed

lemma ascii_int_12a45: "ascii_int ''12a45'' = None"
  by (simp add: ascii_int_def is_blank_def digits_value_def digit_val_def)

lemma ascii_int_12345: "ascii_int ''12345'' = Some 12345"
  by (simp add: ascii_int_def is_blank_def digits_value_def digit_val_def)

lemma py_str_12345: "py_str 12345 = ''12345''"
  by (simp add: py_str_def str_nat.simps)

lemma init_empty_secret:
  "init ascii_int empty_secret_environ sn =
     Inl (ValueError
       ''Environment variable TELEGRAM_API_HASH is not set. Please set it before running this script.'')"
proof -
  have g: "get_env_var ascii_int empty_secret_environ ''TELEGRAM_API_ID'' True = Inr ''12345''"
    by (simp add: get_env_var_def empty_secret_environ_def ascii_int_12345 py_str_12345)
  have h: "get_env_var ascii_int empty_secret_environ ''TELEGRAM_API_HASH'' False =
     Inl (ValueError
       ''Environment variable TELEGRAM_API_HASH is not set. Please set it before running this script.'')"
    by (simp add: get_env_var_def empty_secret_environ_def)
  show ?thesis
    by (simp add: init_def g h)
qed

lemma init_bad_id:
  "init ascii_int bad_id_environ sn =
     Inl (ValueError ''TELEGRAM_API_ID must be a valid integer'')"
  by (simp add: init_def get_env_var_def bad_id_environ_def ascii_int_12a45)

theorem init_configuration_error_witness:
  "empty_secret_environ ''TELEGRAM_API_HASH'' = Some []
   \<and> init ascii_int empty_secret_environ ''telegram_session'' =
       Inl (ValueError
         ''Environment variable TELEGRAM_API_HASH is not set. Please set it before running this script.'')
   \<and> with_new_lister ascii_int empty_secret_environ quiet_remote (list_dialogs quiet_remote) =
       (Inl (ValueError
         ''Environment variable TELEGRAM_API_HASH is not set. Please set it before running this script.''),
        [])
   \<and> bad_id_environ ''TELEGRAM_API_ID'' = Some ''12a45'' \<and> ascii_int ''12a45'' = None
   \<and> with_new_lister ascii_int bad_id_environ quiet_remote (list_dialogs quiet_remote) =
       (Inl (ValueError ''TELEGRAM_API_ID must be a valid integer''), [])"
proof -
  have e: "empty_secret_environ ''TELEGRAM_API_HASH'' = Some []"
    by (simp add: empty_secret_environ_def)
  have b: "bad_id_environ ''TELEGRAM_API_ID'' = Some ''12a45''"
    by (simp add: bad_id_environ_def)
  from init_configuration_error [of empty_secret_environ ascii_int "''telegram_session''"
      quiet_remote "list_dialogs quiet_remote"] e
  obtain m1 m2 where
    i1: "init ascii_int empty_secret_environ ''telegram_session'' = Inl (ValueError m1)" and
    w1: "with_new_lister ascii_int empty_secret_environ quiet_remote (list_dialogs quiet_remote) =
       (Inl (ValueError m2), [])"
    by blast
  from i1 have m1: "m1 =
      ''Environment variable TELEGRAM_API_HASH is not set. Please set it before running this script.''"
    by (simp add: init_empty_secret)
  from w1 have m2: "m2 =
      ''Environment variable TELEGRAM_API_HASH is not set. Please set it before running this script.''"
    by (simp add: with_new_lister_def init_empty_secret)
  from init_configuration_error [of bad_id_environ ascii_int "''telegram_session''"
      quiet_remote "list_dialogs quiet_remote"] b ascii_int_12a45
  obtain m3 where
    w3: "with_new_lister ascii_int bad_id_environ quiet_remote (list_dialogs quiet_remote) =
       (Inl (ValueError m3), [])"
    by blast
  from w3 have m3: "m3 = ''TELEGRAM_API_ID must be a valid integer''"
    by (simp add: with_new_lister_def init_bad_id)
  from e b ascii_int_12a45 i1 w1 w3 show ?thesis
    unfolding m1 m2 m3 by blast
qed


text \<open>With credentials in order the same block connects, lists and disconnects.\<close>

lemma with_new_lister_good:
  "with_new_lister ascii_int good_environ quiet_remote
       (list_dialogs (quiet_remote\<lparr>dialogs_reply := [Yield alice]\<rparr>)) =
     (Inr [\<lparr>name = ''Alice'', entity_id = 42, entity_type = ''Private Chat'',
            participant_count = None\<rparr>],
      [Construct ''telegram_session'' ''12345'' ''abc'', Start None, Log InfoConnected,
       Log InfoFetching, IterDialogs, Pull, Pull, Log (InfoFound 1), ClientDisconnect,
       Log InfoDisconnected])"
proof -
  have i: "init ascii_int good_environ ''telegram_session'' = Inr some_lister"
    by (simp add: init_def get_env_var_def good_environ_def ascii_int_12345 py_str_12345
        some_lister_def)
  have w: "\<lparr>self = some_lister, trace = []\<rparr> = fresh_world"
    by (simp add: fresh_world_def)
  have l: "list_dialogs (quiet_remote\<lparr>dialogs_reply := [Yield alice]\<rparr>)
      (snd (connect quiet_remote fresh_world)) =
      (Inr [\<lparr>name = ''Alice'', entity_id = 42, entity_type = ''Private Chat'',
            participant_count = None\<rparr>],
       \<lparr>self = some_lister\<lparr>client := Some (some_client True)\<rparr>,
         trace = [Construct ''telegram_session'' ''12345'' ''abc'', Start None,
           Log InfoConnected, Log InfoFetching, IterDialogs, Pull, Pull, Log (InfoFound 1)]\<rparr>)"
    by (simp add: connect_quiet list_dialogs_def is_connected_def some_client_def emit_def
        make_dialog_info_def name_or_unnamed_def alice_def)
  have c: "fst (connect quiet_remote fresh_world) = Inr ()"
    by (simp add: connect_quiet)
  have d: "snd (disconnect \<lparr>self = some_lister\<lparr>client := Some (some_client True)\<rparr>,
         trace = [Construct ''telegram_session'' ''12345'' ''abc'', Start None,
           Log InfoConnected, Log InfoFetching, IterDialogs, Pull, Pull, Log (InfoFound 1)]\<rparr>) =
      \<lparr>self = some_lister\<lparr>client := Some (some_client False)\<rparr>,
         trace = [Construct ''telegram_session'' ''12345'' ''abc'', Start None,
           Log InfoConnected, Log InfoFetching, IterDialogs, Pull, Pull, Log (InfoFound 1),
           ClientDisconnect, Log InfoDisconnected]\<rparr>"
    by (simp add: disconnect_def some_client_def emit_def set_client_def)
  have a: "async_with quiet_remote
      (list_dialogs (quiet_remote\<lparr>dialogs_reply := [Yield alice]\<rparr>)) fresh_world =
      (Inr [\<lparr>name = ''Alice'', entity_id = 42, entity_type = ''Private Chat'',
            participant_count = None\<rparr>],
       \<lparr>self = some_lister\<lparr>client := Some (some_client False)\<rparr>,
         trace = [Construct ''telegram_session'' ''12345'' ''abc'', Start None,
           Log InfoConnected, Log InfoFetching, IterDialogs, Pull, Pull, Log (InfoFound 1),
           ClientDisconnect, Log InfoDisconnected]\<rparr>)"
    unfolding async_with_entered [OF c] l fst_conv snd_conv d ..
  show ?thesis
    by (simp add: with_new_lister_def i w a)
qed

end
